theory Spec2Isabelle
  imports Complex_Main
begin

section \<open>Python values used by \<^verbatim>\<open>utils/dd_utils.py\<close>\<close>

subsection \<open>Strings and the interpreter's Unicode tables\<close>

text \<open>
  A Python \<^verbatim>\<open>str\<close> is a sequence of Unicode code points, modelled as a list of naturals.
  The source's literals contain code points beyond ASCII (U+5E93 U+5B58 for the stock label,
  U+FF1A for the full-width colon, U+5143 for the currency unit), so the byte-sized
  characters of HOL strings are not used; \<open>ascii\<close> embeds an ASCII literal.
\<close>

type_synonym ustr = "nat list"

definition ascii :: "string \<Rightarrow> ustr" where
  "ascii s = map of_char s"

datatype error = ValueError | OverflowError | ZeroDivisionError

text \<open>
  What \<^verbatim>\<open>\d\<close>, \<^verbatim>\<open>int\<close>, \<^verbatim>\<open>float\<close> and \<^verbatim>\<open>str.isdigit\<close> accept beyond ASCII depends
  on the Unicode tables of the interpreter, and the length limit of \<^verbatim>\<open>int(str)\<close> on its
  version and configuration. These are parameters of the model:
  \<^item> \<open>decimal_zeros\<close>: the code point of the digit zero of every non-ASCII decimal number
    system (category Nd; the ten digits of a system are contiguous);
  \<^item> \<open>other_digits\<close>: the non-ASCII code points for which \<^verbatim>\<open>isdigit\<close> holds although they
    are no decimal digits (superscript two, circled digits, ...);
  \<^item> \<open>int_max_str_digits\<close>: \<^verbatim>\<open>sys.get_int_max_str_digits()\<close>, 0 for no limit (4300 by default
    since Python 3.11, no limit before).
\<close>

record pyenv =
  decimal_zeros :: "nat list"
  other_digits :: "nat list"
  int_max_str_digits :: nat

definition py_decimal :: "pyenv \<Rightarrow> nat \<Rightarrow> nat option" where
  "py_decimal E c =
     (if 48 \<le> c \<and> c \<le> 57 then Some (c - 48)
      else if c < 128 then None
      else map_option (\<lambda>z. c - z) (find (\<lambda>z. z \<le> c \<and> c < z + 10) (decimal_zeros E)))"

definition is_decimal :: "pyenv \<Rightarrow> nat \<Rightarrow> bool" where
  "is_decimal E c = (case py_decimal E c of None \<Rightarrow> False | Some v \<Rightarrow> True)"

definition py_isdigit_char :: "pyenv \<Rightarrow> nat \<Rightarrow> bool" where
  "py_isdigit_char E c =
     (if is_decimal E c then True else 128 \<le> c \<and> c \<in> set (other_digits E))"

text \<open>\<^verbatim>\<open>str.isdigit()\<close>: non-empty and every character a digit.\<close>

definition py_isdigit :: "pyenv \<Rightarrow> ustr \<Rightarrow> bool" where
  "py_isdigit E s = (if s = [] then False else list_all (py_isdigit_char E) s)"

text \<open>Unicode whitespace, as \<^verbatim>\<open>str.strip()\<close>, \<^verbatim>\<open>str.isspace()\<close> and \<^verbatim>\<open>\s\<close> see it.\<close>

definition py_isspace :: "nat \<Rightarrow> bool" where
  "py_isspace c =
     ((9 \<le> c \<and> c \<le> 13) \<or> (28 \<le> c \<and> c \<le> 32) \<or> c = 133 \<or> c = 160 \<or> c = 5760
      \<or> (8192 \<le> c \<and> c \<le> 8202) \<or> c = 8232 \<or> c = 8233 \<or> c = 8239 \<or> c = 8287
      \<or> c = 12288)"

definition py_strip :: "ustr \<Rightarrow> ustr" where
  "py_strip s = rev (dropWhile py_isspace (rev (dropWhile py_isspace s)))"

definition py_startswith :: "ustr \<Rightarrow> ustr \<Rightarrow> bool" where
  "py_startswith s p = (take (length p) s = p)"

text \<open>\<^verbatim>\<open>sub in s\<close>\<close>

fun py_contains :: "ustr \<Rightarrow> ustr \<Rightarrow> bool" where
  "py_contains sub [] = (sub = [])"
| "py_contains sub (c # cs) = (if py_startswith (c # cs) sub then True else py_contains sub cs)"

text \<open>
  \<^verbatim>\<open>s.split(sep)\<close> for a non-empty separator (the source's separators are the literals
  \<^verbatim>\<open>'='\<close>, \<^verbatim>\<open>'/detail-'\<close> and \<^verbatim>\<open>'.html'\<close>): the pieces between the non-overlapping
  occurrences of \<open>sep\<close>, found from the left. \<open>acc\<close> holds the current piece, reversed.
\<close>

fun split_from :: "ustr \<Rightarrow> ustr \<Rightarrow> ustr \<Rightarrow> ustr list" where
  "split_from sep acc [] = [rev acc]"
| "split_from sep acc (c # cs) =
     (if py_startswith (c # cs) sep then rev acc # split_from sep [] (drop (length sep - 1) cs)
      else split_from sep (c # acc) cs)"

definition py_split :: "ustr \<Rightarrow> ustr \<Rightarrow> ustr list" where
  "py_split s sep = split_from sep [] s"

text \<open>\<^verbatim>\<open>s.replace(old, new)\<close> for a non-empty \<open>old\<close>.\<close>

fun py_replace :: "ustr \<Rightarrow> ustr \<Rightarrow> ustr \<Rightarrow> ustr" where
  "py_replace [] old new = []"
| "py_replace (c # cs) old new =
     (if py_startswith (c # cs) old then new @ py_replace (drop (length old - 1) cs) old new
      else c # py_replace cs old new)"

text \<open>\<^verbatim>\<open>sep.join(xs)\<close>\<close>

fun py_join :: "ustr \<Rightarrow> ustr list \<Rightarrow> ustr" where
  "py_join sep [] = []"
| "py_join sep [x] = x"
| "py_join sep (x # y # ys) = x @ sep @ py_join sep (y # ys)"

subsection \<open>\<^verbatim>\<open>int(str)\<close>\<close>

text \<open>
  Both \<^verbatim>\<open>int\<close> and \<^verbatim>\<open>float\<close> first map every non-ASCII decimal digit to its ASCII digit,
  every non-ASCII whitespace to a space, and any other non-ASCII character to \<^verbatim>\<open>?\<close>.
\<close>

definition to_ascii :: "pyenv \<Rightarrow> nat \<Rightarrow> nat" where
  "to_ascii E c =
     (if c < 128 then c
      else if py_isspace c then 32
      else case py_decimal E c of Some v \<Rightarrow> 48 + v | None \<Rightarrow> 63)"

definition c_isspace :: "nat \<Rightarrow> bool" where
  "c_isspace c = ((9 \<le> c \<and> c \<le> 13) \<or> c = 32)"

definition is_adigit :: "nat \<Rightarrow> bool" where
  "is_adigit c = (48 \<le> c \<and> c \<le> 57)"

text \<open>
  An underscore is accepted only between two digits; \<open>prev\<close> is the character before
  (0 at the start).
\<close>

fun underscores_ok :: "nat \<Rightarrow> nat list \<Rightarrow> bool" where
  "underscores_ok prev [] = (if prev = 95 then False else True)"
| "underscores_ok prev (c # cs) =
     (if c = 95 then (if is_adigit prev then underscores_ok c cs else False)
      else if prev = 95 then (if is_adigit c then underscores_ok c cs else False)
      else underscores_ok c cs)"

definition digits_value :: "nat list \<Rightarrow> nat" where
  "digits_value ds = foldl (\<lambda>a c. 10 * a + (c - 48)) 0 ds"

definition strip_sign :: "nat list \<Rightarrow> bool \<times> nat list" where
  "strip_sign s =
     (case s of
        [] \<Rightarrow> (False, [])
      | c # r \<Rightarrow> if c = 45 then (True, r) else if c = 43 then (False, r) else (False, s))"

text \<open>
  \<^verbatim>\<open>int(s)\<close> in base 10: optional whitespace around, an optional sign, decimal digits with
  single underscores between them. A literal of more digits than the configured limit
  (which applies above 640 digits only) is refused with ValueError.
\<close>

definition py_int :: "pyenv \<Rightarrow> ustr \<Rightarrow> error + int" where
  "py_int E s =
     (let t = dropWhile c_isspace (map (to_ascii E) s);
          (neg, u) = strip_sign t;
          body = takeWhile (\<lambda>c. is_adigit c \<or> c = 95) u;
          rest = dropWhile c_isspace (dropWhile (\<lambda>c. is_adigit c \<or> c = 95) u);
          ds = filter is_adigit body;
          n = length ds
      in if ds = [] then Inl ValueError
         else if underscores_ok 0 body then
           (if rest = [] then
              (if 0 < int_max_str_digits E \<and> int_max_str_digits E < n \<and> 640 < n
               then Inl ValueError
               else Inr ((if neg then - 1 else 1) * int (digits_value ds)))
            else Inl ValueError)
         else Inl ValueError)"

subsection \<open>Floats\<close>

text \<open>
  A Python \<^verbatim>\<open>float\<close> is an IEEE 754 binary64 number. A finite one is modelled by the
  rational it denotes (the sign of zero is not tracked); \<open>to_binary64\<close> rounds a rational to
  the nearest binary64 number, ties to even, values of magnitude at least
  \<open>2^1024 - 2^970\<close> going to infinity.
\<close>

datatype pyfloat = Finite rat | PInf | NInf | NaN

definition round_half_even :: "rat \<Rightarrow> int" where
  "round_half_even x =
     (let f = \<lfloor>x\<rfloor>; d = x - of_int f
      in if d < 1 / 2 then f else if 1 / 2 < d then f + 1 else if even f then f else f + 1)"

text \<open>
  \<open>ilog2 a\<close> is the integer \<open>e\<close> with \<open>2^e \<le> a < 2^(e+1)\<close>, for \<open>a > 0\<close>: found by halving
  from \<open>a \<ge> 1\<close>, by doubling from \<open>a < 1\<close>.
\<close>

function ilog2_up :: "rat \<Rightarrow> int" where
  "ilog2_up a = (if a < 2 then 0 else ilog2_up (a / 2) + 1)"
  by pat_completeness auto
termination
proof (relation "measure (\<lambda>a. nat \<lfloor>a\<rfloor>)")
  show "wf (measure (\<lambda>a::rat. nat \<lfloor>a\<rfloor>))" by simp
next
  fix a :: rat assume "\<not> a < 2"
  then have "\<lfloor>a / 2\<rfloor> < \<lfloor>a\<rfloor>" "0 < \<lfloor>a\<rfloor>" by linarith+
  then show "(a / 2, a) \<in> measure (\<lambda>a. nat \<lfloor>a\<rfloor>)" by simp
qed

function ilog2_down :: "rat \<Rightarrow> int" where
  "ilog2_down a = (if a \<le> 0 then 0 else if 1 \<le> a then 0 else ilog2_down (2 * a) - 1)"
  by pat_completeness auto
termination
proof (relation "measure (\<lambda>a. nat \<lceil>1 / a\<rceil>)")
  show "wf (measure (\<lambda>a::rat. nat \<lceil>1 / a\<rceil>))" by simp
next
  fix a :: rat assume a: "\<not> a \<le> 0" "\<not> 1 \<le> a"
  then have "1 < 1 / a" by simp
  then have c: "2 \<le> \<lceil>1 / a\<rceil>" by linarith
  have "1 / (2 * a) = (1 / a) / 2" by simp
  also have "\<dots> \<le> of_int \<lceil>1 / a\<rceil> / 2" by (simp add: divide_right_mono)
  finally have "\<lceil>1 / (2 * a)\<rceil> \<le> \<lceil>(of_int \<lceil>1 / a\<rceil> :: rat) / 2\<rceil>" by (rule ceiling_mono)
  also have "\<dots> < \<lceil>1 / a\<rceil>" using c by linarith
  finally show "(2 * a, a) \<in> measure (\<lambda>a. nat \<lceil>1 / a\<rceil>)" using c a by simp
qed

declare ilog2_up.simps [simp del] ilog2_down.simps [simp del]

definition ilog2 :: "rat \<Rightarrow> int" where
  "ilog2 a = (if 1 \<le> a then ilog2_up a else ilog2_down a)"

definition pow2 :: "int \<Rightarrow> rat" where
  "pow2 k = (if 0 \<le> k then 2 ^ nat k else 1 / 2 ^ nat (- k))"

text \<open>
  The binary64 numbers near \<open>a > 0\<close> are the multiples of \<open>quantum a\<close>: 53 significant bits,
  the exponent not below that of the subnormal numbers. \<open>round_mag a\<close> is the nearest one.
\<close>

definition quantum :: "rat \<Rightarrow> rat" where
  "quantum a = pow2 (max (ilog2 a) (- 1022) - 52)"

definition round_to :: "rat \<Rightarrow> rat \<Rightarrow> rat" where
  "round_to u a = of_int (round_half_even (a / u)) * u"

definition round_mag :: "rat \<Rightarrow> rat" where
  "round_mag a = round_to (quantum a) a"

definition float_limit :: rat where
  "float_limit = 2 ^ 1024"

definition to_binary64 :: "rat \<Rightarrow> pyfloat" where
  "to_binary64 x =
     (if x = 0 then Finite 0
      else if 0 < x then (if float_limit \<le> round_mag x then PInf else Finite (round_mag x))
      else (if float_limit \<le> round_mag (- x) then NInf else Finite (- round_mag (- x))))"

text \<open>
  A finite float of the model is a binary64 number when rounding leaves it as it is.
  Every float Python holds is one; it is shown below that so is every float the model
  computes.
\<close>

definition is_binary64 :: "pyfloat \<Rightarrow> bool" where
  "is_binary64 x = (case x of Finite a \<Rightarrow> to_binary64 a = Finite a | _ \<Rightarrow> True)"

text \<open>The comparison \<^verbatim>\<open><\<close> of two floats; every comparison with NaN is false.\<close>

fun float_lt :: "pyfloat \<Rightarrow> pyfloat \<Rightarrow> bool" where
  "float_lt NaN y = False"
| "float_lt x NaN = False"
| "float_lt (Finite a) (Finite b) = (a < b)"
| "float_lt (Finite a) PInf = True"
| "float_lt (Finite a) NInf = False"
| "float_lt PInf y = False"
| "float_lt NInf NInf = False"
| "float_lt NInf y = True"

text \<open>
  \<^verbatim>\<open>x / q\<close> for a float \<open>x\<close> and an int \<open>q\<close>: \<open>q\<close> is converted to a float first, which
  raises OverflowError when it rounds beyond the largest float; then the quotient is
  rounded.
\<close>

definition float_of_int :: "int \<Rightarrow> error + rat" where
  "float_of_int q = (case to_binary64 (of_int q) of Finite r \<Rightarrow> Inr r | _ \<Rightarrow> Inl OverflowError)"

definition float_truediv_int :: "pyfloat \<Rightarrow> int \<Rightarrow> error + pyfloat" where
  "float_truediv_int x q =
     (case float_of_int q of
        Inl e \<Rightarrow> Inl e
      | Inr b \<Rightarrow>
          if b = 0 then Inl ZeroDivisionError
          else Inr (case x of
                      Finite a \<Rightarrow> to_binary64 (a / b)
                    | PInf \<Rightarrow> if 0 < b then PInf else NInf
                    | NInf \<Rightarrow> if 0 < b then NInf else PInf
                    | NaN \<Rightarrow> NaN))"

text \<open>
  \<^verbatim>\<open>float(s)\<close>: after the mapping to ASCII and the removal of surrounding whitespace and
  of underscores between digits, the whole text has to be a decimal literal (digits with
  an optional point and an optional exponent, at least one digit in the mantissa and in
  an exponent) or one of \<^verbatim>\<open>inf\<close>, \<^verbatim>\<open>infinity\<close>, \<^verbatim>\<open>nan\<close> in any letter case, each with
  an optional sign. Anything else raises ValueError. A literal too large for a float gives
  infinity, not an error.
\<close>

definition parse_exponent :: "nat list \<Rightarrow> int option" where
  "parse_exponent r =
     (let (eneg, ds) = strip_sign r
      in if ds = [] then None
         else if list_all is_adigit ds
         then Some ((if eneg then - 1 else 1) * int (digits_value ds))
         else None)"

definition pow10 :: "int \<Rightarrow> rat" where
  "pow10 k = (if 0 \<le> k then 10 ^ nat k else 1 / 10 ^ nat (- k))"

definition parse_decimal :: "nat list \<Rightarrow> rat option" where
  "parse_decimal s =
     (let (neg, u) = strip_sign s;
          d1 = takeWhile is_adigit u;
          r1 = dropWhile is_adigit u;
          (d2, r2) = (case r1 of
                        [] \<Rightarrow> ([], [])
                      | c # r \<Rightarrow> if c = 46 then (takeWhile is_adigit r, dropWhile is_adigit r)
                                 else ([], r1));
          m = (if neg then - 1 else 1) * of_nat (digits_value (d1 @ d2))
      in if d1 @ d2 = [] then None
         else case r2 of
                [] \<Rightarrow> Some (m * pow10 (- int (length d2)))
              | c # r \<Rightarrow>
                  if c = 101 \<or> c = 69
                  then map_option (\<lambda>x. m * pow10 (x - int (length d2))) (parse_exponent r)
                  else None)"

definition c_tolower :: "nat \<Rightarrow> nat" where
  "c_tolower c = (if 65 \<le> c \<and> c \<le> 90 then c + 32 else c)"

definition parse_inf_nan :: "nat list \<Rightarrow> pyfloat option" where
  "parse_inf_nan s =
     (let (neg, u) = strip_sign s; w = map c_tolower u
      in if w = ascii ''inf'' \<or> w = ascii ''infinity'' then Some (if neg then NInf else PInf)
         else if w = ascii ''nan'' then Some NaN
         else None)"

definition py_float :: "pyenv \<Rightarrow> ustr \<Rightarrow> error + pyfloat" where
  "py_float E s =
     (let t = rev (dropWhile c_isspace (rev (dropWhile c_isspace (map (to_ascii E) s))))
      in if underscores_ok 0 t then
           (let u = filter (\<lambda>c. if c = 95 then False else True) t
            in case parse_decimal u of
                 Some r \<Rightarrow> Inr (to_binary64 r)
               | None \<Rightarrow> (case parse_inf_nan u of Some x \<Rightarrow> Inr x | None \<Rightarrow> Inl ValueError))
         else Inl ValueError)"

subsection \<open>The regular expressions of the extractor\<close>

text \<open>\<^verbatim>\<open>re.sub(r'[^\d.]', '', s)\<close>: keep the decimal digits and the periods.\<close>

definition re_sub_non_digit_dot :: "pyenv \<Rightarrow> ustr \<Rightarrow> ustr" where
  "re_sub_non_digit_dot E s = filter (\<lambda>c. is_decimal E c \<or> c = 46) s"

text \<open>\<^verbatim>\<open>re.search(r'\d+', s)\<close> and its \<^verbatim>\<open>group()\<close>: the leftmost, longest run of decimal digits.\<close>

definition re_search_digits :: "pyenv \<Rightarrow> ustr \<Rightarrow> ustr option" where
  "re_search_digits E s =
     (let r = dropWhile (\<lambda>c. if is_decimal E c then False else True) s
      in if r = [] then None else Some (takeWhile (is_decimal E) r))"

text \<open>
  \<^verbatim>\<open>re.search(r'<label>\s*[<colons>]\s*(\d+)', s)\<close> and its \<^verbatim>\<open>group(1)\<close>, the label being
  U+5E93 U+5B58 and the colons U+FF1A and \<^verbatim>\<open>:\<close>. The match is the leftmost one; each
  \<^verbatim>\<open>\s*\<close> takes as much whitespace as it can and gives back one character at a time when
  the rest does not match (\<open>n\<close> counts what it still holds).
\<close>

definition stock_label :: ustr where
  "stock_label = [24211, 23384]"

definition is_colon :: "nat \<Rightarrow> bool" where
  "is_colon c = (c = 65306 \<or> c = 58)"

fun match_ws_digits :: "pyenv \<Rightarrow> ustr \<Rightarrow> nat \<Rightarrow> ustr option" where
  "match_ws_digits E r 0 =
     (let d = takeWhile (is_decimal E) r in if d = [] then None else Some d)"
| "match_ws_digits E r (Suc n) =
     (let d = takeWhile (is_decimal E) (drop (Suc n) r)
      in if d = [] then match_ws_digits E r n else Some d)"

definition match_colon_tail :: "pyenv \<Rightarrow> ustr \<Rightarrow> ustr option" where
  "match_colon_tail E t =
     (case t of
        [] \<Rightarrow> None
      | c # r \<Rightarrow> if is_colon c then match_ws_digits E r (length (takeWhile py_isspace r))
                 else None)"

fun match_ws_colon :: "pyenv \<Rightarrow> ustr \<Rightarrow> nat \<Rightarrow> ustr option" where
  "match_ws_colon E r 0 = match_colon_tail E r"
| "match_ws_colon E r (Suc n) =
     (case match_colon_tail E (drop (Suc n) r) of
        Some d \<Rightarrow> Some d
      | None \<Rightarrow> match_ws_colon E r n)"

definition match_stock_at :: "pyenv \<Rightarrow> ustr \<Rightarrow> ustr option" where
  "match_stock_at E s =
     (if py_startswith s stock_label
      then match_ws_colon E (drop 2 s) (length (takeWhile py_isspace (drop 2 s)))
      else None)"

fun re_search_stock :: "pyenv \<Rightarrow> ustr \<Rightarrow> ustr option" where
  "re_search_stock E [] = None"
| "re_search_stock E (c # cs) =
     (case match_stock_at E (c # cs) of
        Some d \<Rightarrow> Some d
      | None \<Rightarrow> re_search_stock E cs)"

section \<open>The listing fragment\<close>

text \<open>
  A parsed fragment is a tree of elements and text nodes. An element carries its tag name
  (as the parser stores it, in lower case), the list of its classes, its \<^verbatim>\<open>href\<close>
  attribute if it has one, and its children; no other attribute is read by the source.
  A \<open>tag\<close> is an element together with the class lists of the elements that enclose it,
  innermost first: a selector with a descendant combinator looks at them.
\<close>

datatype node = Text ustr | Elem ustr "ustr list" "ustr option" "node list"

type_synonym tag = "ustr list list \<times> node"

text \<open>\<^verbatim>\<open>tag.text\<close>: the text nodes below the element, concatenated in document order.\<close>

fun get_text :: "node \<Rightarrow> ustr" where
  "get_text (Text t) = t"
| "get_text (Elem n cs h ks) = concat (map get_text ks)"

definition text_of :: "tag \<Rightarrow> ustr" where
  "text_of t = get_text (snd t)"

text \<open>\<^verbatim>\<open>tag.get('href', '')\<close>\<close>

definition get_href :: "tag \<Rightarrow> ustr" where
  "get_href t =
     (case snd t of
        Text x \<Rightarrow> []
      | Elem n cs h ks \<Rightarrow> (case h of None \<Rightarrow> [] | Some v \<Rightarrow> v))"

definition self_elem :: "ustr list list \<Rightarrow> node \<Rightarrow> tag list" where
  "self_elem ctx k = (case k of Text x \<Rightarrow> [] | Elem n cs h ks \<Rightarrow> [(ctx, k)])"

text \<open>The elements strictly below a node, in document order.\<close>

fun descendants :: "ustr list list \<Rightarrow> node \<Rightarrow> tag list" where
  "descendants ctx (Text t) = []"
| "descendants ctx (Elem n cs h ks) =
     concat (map (\<lambda>k. self_elem (cs # ctx) k @ descendants (cs # ctx) k) ks)"

text \<open>
  The selectors of the source are of three shapes: \<^verbatim>\<open>.c\<close>, \<^verbatim>\<open>n\<close> and \<^verbatim>\<open>n.c\<close> (a compound
  of an optional tag name and an optional class), possibly below \<^verbatim>\<open>.a\<close> (an enclosing
  element of class \<open>a\<close>, which may be the element the query starts from or one above it).
  \<open>select a n c t\<close> is \<^verbatim>\<open>t.select(...)\<close>, \<open>select_one\<close> its first result.
\<close>

definition matches :: "ustr option \<Rightarrow> ustr option \<Rightarrow> node \<Rightarrow> bool" where
  "matches nm cl k =
     (case k of
        Text x \<Rightarrow> False
      | Elem n cs h ks \<Rightarrow>
          (case nm of None \<Rightarrow> True | Some x \<Rightarrow> x = n) \<and>
          (case cl of None \<Rightarrow> True | Some x \<Rightarrow> x \<in> set cs))"

definition under :: "ustr option \<Rightarrow> ustr list list \<Rightarrow> bool" where
  "under anc ctx = (case anc of None \<Rightarrow> True | Some x \<Rightarrow> list_ex (\<lambda>cs. x \<in> set cs) ctx)"

definition select :: "ustr option \<Rightarrow> ustr option \<Rightarrow> ustr option \<Rightarrow> tag \<Rightarrow> tag list" where
  "select anc nm cl t =
     filter (\<lambda>d. under anc (fst d) \<and> matches nm cl (snd d)) (descendants (fst t) (snd t))"

definition select_one :: "ustr option \<Rightarrow> ustr option \<Rightarrow> ustr option \<Rightarrow> tag \<Rightarrow> tag option" where
  "select_one anc nm cl t = (case select anc nm cl t of [] \<Rightarrow> None | d # ds \<Rightarrow> Some d)"

section \<open>The record extractor: \<^verbatim>\<open>DD373Product.from_html_element\<close>\<close>

record product =
  title :: ustr
  url :: ustr
  product_id :: ustr
  server_info :: ustr
  price :: pyfloat
  stock :: int
  exchange_rate_1 :: ustr
  exchange_rate_2 :: ustr
  credit_rating :: int
  purchase_url :: ustr

text \<open>The dataclass defaults, \<^verbatim>\<open>cls()\<close>.\<close>

definition new_product :: product where
  "new_product =
     \<lparr>title = [], url = [], product_id = [], server_info = [], price = Finite 0, stock = 0,
      exchange_rate_1 = [], exchange_rate_2 = [], credit_rating = 0, purchase_url = []\<rparr>"

definition by_class :: "string \<Rightarrow> tag \<Rightarrow> tag option" where
  "by_class c t = select_one None None (Some (ascii c)) t"

subsection \<open>Steps 1 to 3: title and URL, server info, price\<close>

text \<open>
  The product id is the text between \<^verbatim>\<open>/detail-\<close> and \<^verbatim>\<open>.html\<close>; the last case is the
  source's \<^verbatim>\<open>except IndexError: pass\<close>.
\<close>

definition detail_id :: "ustr \<Rightarrow> ustr" where
  "detail_id href =
     (if py_contains (ascii ''/detail-'') href
      then (case py_split href (ascii ''/detail-'') of
              a # b # r \<Rightarrow> (case py_split b (ascii ''.html'') of c # r' \<Rightarrow> c | [] \<Rightarrow> [])
            | _ \<Rightarrow> [])
      else [])"

definition resolve_title :: "tag \<Rightarrow> ustr \<Rightarrow> product \<Rightarrow> product" where
  "resolve_title item domain p =
     (case by_class ''goods-list-title'' item of
        None \<Rightarrow> p
      | Some title_elem \<Rightarrow>
          let href0 = get_href title_elem;
              href = (if href0 = [] then href0
                      else if py_startswith href0 (ascii ''/'') then domain @ href0
                      else href0)
          in p\<lparr>title := py_strip (text_of title_elem), url := href, product_id := detail_id href\<rparr>)"

definition resolve_server_info :: "tag \<Rightarrow> product \<Rightarrow> product" where
  "resolve_server_info item p =
     (case by_class ''game-qufu-attr'' item of
        None \<Rightarrow> p
      | Some info \<Rightarrow>
          p\<lparr>server_info :=
              py_join (ascii ''/'')
                (map (\<lambda>a. py_strip (text_of a)) (select None (Some (ascii ''a'')) None info))\<rparr>)"

definition resolve_price :: "pyenv \<Rightarrow> tag \<Rightarrow> product \<Rightarrow> product" where
  "resolve_price E item p =
     (case by_class ''goods-price'' item of
        None \<Rightarrow> p
      | Some price_elem \<Rightarrow>
          (case py_float E (re_sub_non_digit_dot E (text_of price_elem)) of
             Inl e \<Rightarrow> p\<lparr>price := Finite 0\<rparr>
           | Inr x \<Rightarrow> p\<lparr>price := x\<rparr>))"

subsection \<open>Step 4: stock\<close>

text \<open>
  \<open>digit_text E e\<close> is the guarded conversion the source applies to the bold element and
  to the legacy element: \<open>None\<close> when the stripped text fails \<^verbatim>\<open>isdigit()\<close>, otherwise the
  outcome of \<^verbatim>\<open>int\<close> on it, which is not caught.
\<close>

definition digit_text :: "pyenv \<Rightarrow> tag \<Rightarrow> (error + int) option" where
  "digit_text E e =
     (let s = py_strip (text_of e) in if py_isdigit E s then Some (py_int E s) else None)"

text \<open>
  Inside the reputation container: the labelled number, else the bold element. The
  result is the stock after line 89 (0 when nothing was assigned).
\<close>

definition stock_in_reputation :: "pyenv \<Rightarrow> tag \<Rightarrow> error + int" where
  "stock_in_reputation E item =
     (case by_class ''game-reputation'' item of
        None \<Rightarrow> Inr 0
      | Some reputation_div \<Rightarrow>
          (case re_search_stock E (text_of reputation_div) of
             Some g \<Rightarrow> py_int E g
           | None \<Rightarrow>
               (case by_class ''bold'' reputation_div of
                  None \<Rightarrow> Inr 0
                | Some bold_span \<Rightarrow>
                    (case digit_text E bold_span of None \<Rightarrow> Inr 0 | Some r \<Rightarrow> r))))"

text \<open>The legacy element \<^verbatim>\<open>.kucun span\<close>, consulted when the stock is 0 at that point.\<close>

definition stock_legacy :: "pyenv \<Rightarrow> tag \<Rightarrow> int \<Rightarrow> error + int" where
  "stock_legacy E item st =
     (if st = 0
      then (case select_one (Some (ascii ''kucun'')) (Some (ascii ''span'')) None item of
              None \<Rightarrow> Inr st
            | Some stock_elem_old \<Rightarrow>
                (case digit_text E stock_elem_old of None \<Rightarrow> Inr st | Some r \<Rightarrow> r))
      else Inr st)"

definition resolve_stock :: "pyenv \<Rightarrow> tag \<Rightarrow> error + int" where
  "resolve_stock E item =
     (case stock_in_reputation E item of
        Inl e \<Rightarrow> Inl e
      | Inr st \<Rightarrow> stock_legacy E item st)"

subsection \<open>Steps 5 to 7: exchange rates, credit rating, purchase URL\<close>

definition first_two_p :: "tag \<Rightarrow> product \<Rightarrow> product" where
  "first_two_p box p =
     (case select None (Some (ascii ''p'')) None box of
        a # b # r \<Rightarrow> p\<lparr>exchange_rate_1 := py_strip (text_of a),
                        exchange_rate_2 := py_strip (text_of b)\<rparr>
      | _ \<Rightarrow> p)"

definition resolve_rates :: "tag \<Rightarrow> product \<Rightarrow> product" where
  "resolve_rates item p =
     (case by_class ''kucun'' item of
        None \<Rightarrow> p
      | Some kucun_div \<Rightarrow>
          (case select None (Some (ascii ''p'')) None kucun_div of
             [] \<Rightarrow> (case by_class ''width233'' item of
                      None \<Rightarrow> p
                    | Some old_rate_div \<Rightarrow> first_two_p old_rate_div p)
           | ps \<Rightarrow> first_two_p kucun_div p))"

definition count_icons :: "string \<Rightarrow> tag \<Rightarrow> int" where
  "count_icons c reputation = int (length (select None (Some (ascii ''i'')) (Some (ascii c)) reputation))"

definition rating_of_counts :: "int \<Rightarrow> int \<Rightarrow> int \<Rightarrow> int \<Rightarrow> int" where
  "rating_of_counts hearts diamonds crowns r0 =
     (if 0 < hearts then hearts
      else if 0 < diamonds then 5 + diamonds
      else if 0 < crowns then 10 + crowns
      else r0)"

definition resolve_credit_rating :: "tag \<Rightarrow> product \<Rightarrow> product" where
  "resolve_credit_rating item p =
     (case by_class ''game-reputation'' item of
        None \<Rightarrow> p
      | Some reputation \<Rightarrow>
          p\<lparr>credit_rating :=
              rating_of_counts (count_icons ''icon-heart'' reputation)
                (count_icons ''icon-bluediamond'' reputation)
                (count_icons ''icon-crown'' reputation) (credit_rating p)\<rparr>)"

definition buy_button :: "tag \<Rightarrow> tag option" where
  "buy_button item =
     select_one (Some (ascii ''shop-btn-group'')) (Some (ascii ''a'')) (Some (ascii ''im-buy-btn'')) item"

definition normalize_href :: "ustr \<Rightarrow> ustr" where
  "normalize_href href =
     (if href = [] then href
      else if py_startswith href (ascii ''http'') then href
      else ascii ''https:'' @ href)"

definition resolve_purchase_url :: "tag \<Rightarrow> product \<Rightarrow> product" where
  "resolve_purchase_url item p =
     (case buy_button item of
        None \<Rightarrow> p
      | Some buy_btn \<Rightarrow> p\<lparr>purchase_url := normalize_href (get_href buy_btn)\<rparr>)"

subsection \<open>Step 8: bundle quantity and unit price\<close>

text \<open>
  \<open>scan_quantity E t st\<close> is the pair of the variable \<^verbatim>\<open>quantity\<close> and of the stock after
  lines 139 to 151, for the title \<open>t\<close> and the stock \<open>st\<close> resolved so far. A ValueError of
  \<^verbatim>\<open>int\<close> is caught there: the quantity is then 1 and the stock is left as it was.
\<close>

definition scan_quantity :: "pyenv \<Rightarrow> ustr \<Rightarrow> int \<Rightarrow> int \<times> int" where
  "scan_quantity E t st =
     (if t = [] then (1, st)
      else if py_contains (ascii ''='') t
      then (case py_split t (ascii ''='') of
              [] \<Rightarrow> (1, st)
            | quantity_part # r \<Rightarrow>
                (case re_search_digits E quantity_part of
                   None \<Rightarrow> (1, st)
                 | Some g \<Rightarrow>
                     (case py_int E g of
                        Inl e \<Rightarrow> (1, st)
                      | Inr q \<Rightarrow> (q, q * st))))
      else (1, st))"

text \<open>Lines 154 and 155: the division is outside the \<^verbatim>\<open>try\<close>, its OverflowError is not caught.\<close>

definition unit_price :: "pyfloat \<Rightarrow> int \<Rightarrow> error + pyfloat" where
  "unit_price x quantity = (if 0 < quantity then float_truediv_int x quantity else Inr x)"

definition normalize_quantity :: "pyenv \<Rightarrow> product \<Rightarrow> error + product" where
  "normalize_quantity E p =
     (let (quantity, st) = scan_quantity E (title p) (stock p)
      in case unit_price (price p) quantity of
           Inl e \<Rightarrow> Inl e
         | Inr x \<Rightarrow> Inr (p\<lparr>stock := st, price := x\<rparr>))"

subsection \<open>The whole extraction\<close>

text \<open>
  \<open>scrape E item domain\<close> is the record after step 7, holding the raw scraped stock and
  price; \<open>from_html_element\<close> applies step 8 to it. An exception the source does not catch
  is the result \<open>Inl\<close>.
\<close>

definition scrape :: "pyenv \<Rightarrow> tag \<Rightarrow> ustr \<Rightarrow> error + product" where
  "scrape E item domain =
     (let p = resolve_price E item (resolve_server_info item (resolve_title item domain new_product))
      in case resolve_stock E item of
           Inl e \<Rightarrow> Inl e
         | Inr st \<Rightarrow>
             Inr (resolve_purchase_url item
                    (resolve_credit_rating item (resolve_rates item (p\<lparr>stock := st\<rparr>)))))"

definition from_html_element :: "pyenv \<Rightarrow> tag \<Rightarrow> ustr \<Rightarrow> error + product" where
  "from_html_element E item domain =
     (case scrape E item domain of
        Inl e \<Rightarrow> Inl e
      | Inr p \<Rightarrow> normalize_quantity E p)"

text \<open>
  Line 201 of \<^verbatim>\<open>get_dd373_listings\<close>: the extractor applied to every listing container of the
  page, in document order; the first exception ends the comprehension.
\<close>

fun get_dd373_listings :: "pyenv \<Rightarrow> ustr \<Rightarrow> tag list \<Rightarrow> error + product list" where
  "get_dd373_listings E domain [] = Inr []"
| "get_dd373_listings E domain (item # items) =
     (case from_html_element E item domain of
        Inl e \<Rightarrow> Inl e
      | Inr p \<Rightarrow>
          (case get_dd373_listings E domain items of
             Inl e \<Rightarrow> Inl e
           | Inr ps \<Rightarrow> Inr (p # ps)))"

section \<open>The eligibility filter: \<^verbatim>\<open>FilterParams.apply\<close>\<close>

text \<open>A threshold is an integer or \<^verbatim>\<open>None\<close>; the constructor sets both to 0.\<close>

record filter_params =
  stock_min :: "int option"
  level_min :: "int option"

definition below :: "int \<Rightarrow> int option \<Rightarrow> bool" where
  "below v th = (case th of None \<Rightarrow> False | Some m \<Rightarrow> v < m)"

definition apply_filter :: "filter_params \<Rightarrow> product \<Rightarrow> bool" where
  "apply_filter fp p =
     (if below (credit_rating p) (level_min fp) then False
      else if below (stock p) (stock_min fp) then False
      else True)"

section \<open>The ranker: \<^verbatim>\<open>_filter_valid_offer_item\<close> and \<^verbatim>\<open>get_dd_min_price\<close>\<close>

text \<open>
  The key of line 213: the text after the first \<^verbatim>\<open>=\<close> of \<^verbatim>\<open>exchange_rate_2\<close>, every
  U+5143 removed, stripped, and given to \<^verbatim>\<open>float\<close>, whose ValueError is not caught;
  infinity when there is no \<^verbatim>\<open>=\<close>.
\<close>

definition yuan :: ustr where
  "yuan = [20803]"

definition exchange_rate_key :: "pyenv \<Rightarrow> product \<Rightarrow> error + pyfloat" where
  "exchange_rate_key E x =
     (if py_contains (ascii ''='') (exchange_rate_2 x)
      then (case py_split (exchange_rate_2 x) (ascii ''='') of
              a # b # r \<Rightarrow> py_float E (py_strip (py_replace b yuan []))
            | _ \<Rightarrow> Inr PInf)
      else Inr PInf)"

text \<open>
  \<^verbatim>\<open>sorted(xs, key=f)\<close> computes the keys from left to right (the first exception ends
  it) and sorts stably, comparing keys with \<^verbatim>\<open><\<close> only. The model inserts from the right,
  each element in front of the first one whose key is not smaller. On keys without NaN,
  \<^verbatim>\<open><\<close> is a strict weak order and the stable result is unique; with a NaN key the order
  CPython produces depends on its merge strategy and is not modelled.
\<close>

fun with_keys :: "('a \<Rightarrow> error + pyfloat) \<Rightarrow> 'a list \<Rightarrow> error + (pyfloat \<times> 'a) list" where
  "with_keys f [] = Inr []"
| "with_keys f (x # xs) =
     (case f x of
        Inl e \<Rightarrow> Inl e
      | Inr k \<Rightarrow> (case with_keys f xs of Inl e \<Rightarrow> Inl e | Inr ks \<Rightarrow> Inr ((k, x) # ks)))"

fun insert_key :: "pyfloat \<times> 'a \<Rightarrow> (pyfloat \<times> 'a) list \<Rightarrow> (pyfloat \<times> 'a) list" where
  "insert_key x [] = [x]"
| "insert_key x (y # ys) = (if float_lt (fst y) (fst x) then y # insert_key x ys else x # y # ys)"

definition py_sorted :: "('a \<Rightarrow> error + pyfloat) \<Rightarrow> 'a list \<Rightarrow> error + 'a list" where
  "py_sorted f xs =
     (case with_keys f xs of
        Inl e \<Rightarrow> Inl e
      | Inr ks \<Rightarrow> Inr (map snd (foldr insert_key ks [])))"

text \<open>
  \<^verbatim>\<open>_filter_valid_offer_item\<close> on the values of the records. The objects themselves, the
  deep copy and the lists the function builds are the subject of the last section.
\<close>

definition filter_valid_offer_item ::
  "pyenv \<Rightarrow> product list \<Rightarrow> filter_params \<Rightarrow> error + product list" where
  "filter_valid_offer_item E listOffers filterParams =
     (case py_sorted (exchange_rate_key E) listOffers of
        Inl e \<Rightarrow> Inl e
      | Inr sorted_offers \<Rightarrow> Inr (filter (apply_filter filterParams) sorted_offers))"

text \<open>\<^verbatim>\<open>min(xs, key=price)\<close> keeps the first element until a strictly smaller one comes.\<close>

fun min_by_price :: "product \<Rightarrow> product list \<Rightarrow> product" where
  "min_by_price best [] = best"
| "min_by_price best (x # xs) =
     min_by_price (if float_lt (price x) (price best) then x else best) xs"

text \<open>
  \<^verbatim>\<open>get_dd_min_price\<close> from line 242 on: \<open>list_offers\<close> is what \<^verbatim>\<open>get_dd373_listings\<close> returned
  for the page (the browser is outside the model), the two thresholds are the
  \<^verbatim>\<open>DD_STOCKMIN\<close> and \<^verbatim>\<open>DD_LEVELMIN\<close> of the sheet row.
\<close>

definition get_dd_min_price ::
  "pyenv \<Rightarrow> int option \<Rightarrow> int option \<Rightarrow> product list \<Rightarrow> error + (pyfloat \<times> ustr \<times> int) option" where
  "get_dd_min_price E dd_stockmin dd_levelmin list_offers =
     (case filter_valid_offer_item E list_offers \<lparr>stock_min = dd_stockmin, level_min = dd_levelmin\<rparr> of
        Inl e \<Rightarrow> Inl e
      | Inr [] \<Rightarrow> Inr None
      | Inr (x # xs) \<Rightarrow>
          (let min_price_object = min_by_price x xs
           in Inr (Some (price min_price_object, title min_price_object, stock min_price_object))))"

section \<open>The ranking step on the object store\<close>

text \<open>
  In Python the list and the records are objects, and \<^verbatim>\<open>_filter_valid_offer_item\<close> receives
  references. The store is a list of objects, an address is an index into it, and an
  allocation appends. A reference read at the wrong class or beyond the store cannot
  occur in Python; the model reads it as the empty list, or as the default record.
\<close>

datatype obj = Product product | PyList "nat list"

type_synonym heap = "obj list"

definition get_product :: "heap \<Rightarrow> nat \<Rightarrow> product" where
  "get_product h a =
     (if a < length h then (case h ! a of Product p \<Rightarrow> p | PyList xs \<Rightarrow> new_product)
      else new_product)"

definition get_list :: "heap \<Rightarrow> nat \<Rightarrow> nat list" where
  "get_list h a =
     (if a < length h then (case h ! a of Product p \<Rightarrow> [] | PyList xs \<Rightarrow> xs) else [])"

definition alloc :: "heap \<Rightarrow> obj \<Rightarrow> heap \<times> nat" where
  "alloc h x = (h @ [x], length h)"

text \<open>
  \<^verbatim>\<open>copy.deepcopy(listOffers)\<close>: a new list, then a new record for every element met for
  the first time (the fields of a record are strings and numbers, which are not copied);
  \<open>memo\<close> maps the addresses already copied to their copies, so that an object that
  occurs twice is copied once.
\<close>

fun deepcopy_elems :: "heap \<Rightarrow> (nat \<times> nat) list \<Rightarrow> nat list \<Rightarrow> heap \<times> nat list" where
  "deepcopy_elems h memo [] = (h, [])"
| "deepcopy_elems h memo (a # as) =
     (case map_of memo a of
        Some b \<Rightarrow> (case deepcopy_elems h memo as of (h', bs) \<Rightarrow> (h', b # bs))
      | None \<Rightarrow>
          (case alloc h (Product (get_product h a)) of
             (h1, b) \<Rightarrow>
               (case deepcopy_elems h1 ((a, b) # memo) as of (h', bs) \<Rightarrow> (h', b # bs))))"

definition deepcopy_list :: "heap \<Rightarrow> nat \<Rightarrow> heap \<times> nat" where
  "deepcopy_list h l =
     (case alloc h (PyList []) of
        (h1, y) \<Rightarrow>
          (case deepcopy_elems h1 [(l, y)] (get_list h l) of
             (h2, bs) \<Rightarrow> (h2[y := PyList bs], y)))"

text \<open>The loop of lines 220 to 222: \<^verbatim>\<open>valid_offers.append(offer)\<close> updates the list at \<open>v\<close>.\<close>

fun append_valid :: "filter_params \<Rightarrow> heap \<Rightarrow> nat \<Rightarrow> nat list \<Rightarrow> heap" where
  "append_valid fp h v [] = h"
| "append_valid fp h v (offer # rest) =
     append_valid fp
       (if apply_filter fp (get_product h offer) then h[v := PyList (get_list h v @ [offer])]
        else h)
       v rest"

text \<open>
  The function returns the store it leaves and either the exception or the address of
  \<^verbatim>\<open>valid_offers\<close>. \<^verbatim>\<open>sorted\<close> builds a new list and leaves its argument as it is.
\<close>

definition filter_valid_offer_item_st ::
  "pyenv \<Rightarrow> heap \<Rightarrow> nat \<Rightarrow> filter_params \<Rightarrow> heap \<times> (error + nat)" where
  "filter_valid_offer_item_st E h listOffers filterParams =
     (case deepcopy_list h listOffers of
        (h1, offers_copy) \<Rightarrow>
          (case py_sorted (\<lambda>a. exchange_rate_key E (get_product h1 a)) (get_list h1 offers_copy) of
             Inl e \<Rightarrow> (h1, Inl e)
           | Inr xs \<Rightarrow>
               (case alloc h1 (PyList xs) of
                  (h2, sorted_offers) \<Rightarrow>
                    (case alloc h2 (PyList []) of
                       (h3, valid_offers) \<Rightarrow>
                         (append_valid filterParams h3 valid_offers (get_list h3 sorted_offers),
                          Inr valid_offers)))))"

section \<open>Example inputs\<close>

text \<open>
  An interpreter that knows the full-width digits (zero at U+FF10) and superscript two,
  with the default limit on integer literals.
\<close>

definition env0 :: pyenv where
  "env0 = \<lparr>decimal_zeros = [65296], other_digits = [178], int_max_str_digits = 4300\<rparr>"

definition el :: "string \<Rightarrow> string list \<Rightarrow> node list \<Rightarrow> node" where
  "el n cs ks = Elem (ascii n) (map ascii cs) None ks"

definition link :: "string list \<Rightarrow> string \<Rightarrow> node list \<Rightarrow> node" where
  "link cs h ks = Elem (ascii ''a'') (map ascii cs) (Some (ascii h)) ks"

definition tx :: "string \<Rightarrow> node" where
  "tx s = Text (ascii s)"

definition listing :: "node list \<Rightarrow> tag" where
  "listing ks = ([], el ''div'' [''goods-list-item''] ks)"

definition dd373 :: ustr where
  "dd373 = ascii ''https://www.dd373.com''"

definition icon :: "string \<Rightarrow> node" where
  "icon c = el ''i'' [c] []"

text \<open>
  A listing of the current markup: a bundle of 2 for 8.50, 7 bundles, two hearts and a
  diamond. \<open>rep_full\<close> and \<open>btn_full\<close> are its reputation container and its buy button as
  the selectors return them, \<open>rec_full\<close> is the record extracted from it.
\<close>

definition reputation_full :: node where
  "reputation_full = el ''div'' [''game-reputation'']
     [Text (stock_label @ [65306] @ ascii '' 7''), icon ''icon-heart'', icon ''icon-heart'',
      icon ''icon-bluediamond'']"

definition button_full :: node where
  "button_full = link [''im-buy-btn''] ''/order'' []"

definition item_full :: tag where
  "item_full = listing
     [link [''goods-list-title''] ''/detail-abc123.html'' [tx '' 2 Divine = 100 ''],
      el ''div'' [''game-qufu-attr''] [link [] ''#'' [tx '' S1 ''], link [] ''#'' [tx ''EU'']],
      el ''div'' [''goods-price''] [tx ''Y8.50''],
      reputation_full,
      el ''div'' [''kucun'']
        [el ''p'' [] [tx ''1=2''], el ''p'' [] [Text (ascii ''1=0.5'' @ yuan)]],
      el ''div'' [''shop-btn-group''] [button_full]]"

definition rep_full :: tag where
  "rep_full = ([map ascii [''goods-list-item'']], reputation_full)"

definition btn_full :: tag where
  "btn_full = ([map ascii [''shop-btn-group''], map ascii [''goods-list-item'']], button_full)"

definition rec_full :: product where
  "rec_full =
     \<lparr>title = ascii ''2 Divine = 100'', url = ascii ''https://www.dd373.com/detail-abc123.html'',
      product_id = ascii ''abc123'', server_info = ascii ''S1/EU'', price = Finite (17 / 4),
      stock = 14, exchange_rate_1 = ascii ''1=2'', exchange_rate_2 = ascii ''1=0.5'' @ yuan,
      credit_rating = 2, purchase_url = ascii ''https:/order''\<rparr>"

text \<open>Listings with icons of one kind, and one with six hearts and a diamond.\<close>

definition reputation_diamonds :: node where
  "reputation_diamonds = el ''div'' [''game-reputation'']
     [icon ''icon-bluediamond'', icon ''icon-bluediamond'', icon ''icon-bluediamond'']"

definition item_diamonds :: tag where
  "item_diamonds = listing [reputation_diamonds]"

definition rep_diamonds :: tag where
  "rep_diamonds = ([map ascii [''goods-list-item'']], reputation_diamonds)"

definition reputation_crowns :: node where
  "reputation_crowns = el ''div'' [''game-reputation''] [icon ''icon-crown'', icon ''icon-crown'']"

definition item_crowns :: tag where
  "item_crowns = listing [reputation_crowns]"

definition rep_crowns :: tag where
  "rep_crowns = ([map ascii [''goods-list-item'']], reputation_crowns)"

definition item_six_hearts :: tag where
  "item_six_hearts = listing
     [el ''div'' [''game-reputation'']
        [icon ''icon-heart'', icon ''icon-heart'', icon ''icon-heart'', icon ''icon-heart'',
         icon ''icon-heart'', icon ''icon-heart'', icon ''icon-bluediamond'']]"

text \<open>A listing container with nothing in it.\<close>

definition item_bare :: tag where
  "item_bare = listing []"

text \<open>
  Records whose sell rate has no number after the \<^verbatim>\<open>=\<close>: one in stock, one out of stock;
  and a record with a well-formed rate.
\<close>

definition offer_malformed :: product where
  "offer_malformed =
     new_product\<lparr>title := ascii ''A'', price := Finite 1, stock := 5,
       exchange_rate_2 := ascii ''1=abc'', credit_rating := 3\<rparr>"

definition offer_sold_out :: product where
  "offer_sold_out =
     new_product\<lparr>title := ascii ''B'', price := Finite 1, stock := 0,
       exchange_rate_2 := ascii ''1=abc'', credit_rating := 3\<rparr>"

definition offer_good :: product where
  "offer_good =
     new_product\<lparr>title := ascii ''C'', price := Finite 2, stock := 5,
       exchange_rate_2 := ascii ''1=0.5'' @ yuan, credit_rating := 3\<rparr>"

text \<open>
  A listing whose reputation container shows the labelled stock 0 while a legacy stock
  element shows 5.
\<close>

definition item_stock_zero :: tag where
  "item_stock_zero = listing
     [el ''div'' [''game-reputation''] [Text (stock_label @ ascii '':0'')],
      el ''div'' [''kucun''] [el ''span'' [] [tx ''5'']]]"

definition rep_stock_zero :: tag where
  "rep_stock_zero =
     ([map ascii [''goods-list-item'']], el ''div'' [''game-reputation''] [Text (stock_label @ ascii '':0'')])"



section \<open>Evaluation and field lemmas\<close>

lemmas string_defs = ascii_def py_decimal_def is_decimal_def py_isdigit_char_def py_isdigit_def
  py_isspace_def py_strip_def py_startswith_def py_split_def to_ascii_def c_isspace_def
  is_adigit_def digits_value_def strip_sign_def py_int_def

lemmas float_defs = round_half_even_def ilog2_up.simps ilog2_down.simps ilog2_def pow2_def quantum_def round_to_def round_mag_def
  float_limit_def to_binary64_def float_of_int_def float_truediv_int_def parse_exponent_def pow10_def
  parse_decimal_def c_tolower_def parse_inf_nan_def py_float_def

lemmas regex_defs = re_sub_non_digit_dot_def re_search_digits_def stock_label_def is_colon_def
  match_colon_tail_def match_stock_at_def

lemmas dom_defs = text_of_def get_href_def self_elem_def matches_def under_def select_def
  select_one_def by_class_def

lemmas extractor_defs = new_product_def detail_id_def resolve_title_def resolve_server_info_def
  resolve_price_def digit_text_def stock_in_reputation_def stock_legacy_def resolve_stock_def
  first_two_p_def resolve_rates_def count_icons_def rating_of_counts_def
  resolve_credit_rating_def buy_button_def normalize_href_def resolve_purchase_url_def
  scan_quantity_def unit_price_def normalize_quantity_def scrape_def from_html_element_def

lemmas ranker_defs = below_def apply_filter_def yuan_def exchange_rate_key_def py_sorted_def
  filter_valid_offer_item_def get_dd_min_price_def

lemmas example_defs = env0_def el_def link_def tx_def listing_def dd373_def icon_def

lemmas model_defs = string_defs float_defs regex_defs dom_defs extractor_defs ranker_defs
  example_defs Let_def

lemma resolve_title_fields [simp]:
  "price (resolve_title item d p) = price p"
  "stock (resolve_title item d p) = stock p"
  "credit_rating (resolve_title item d p) = credit_rating p"
  "purchase_url (resolve_title item d p) = purchase_url p"
  by (simp_all add: resolve_title_def Let_def split: option.splits)

lemma resolve_server_info_fields [simp]:
  "title (resolve_server_info item p) = title p"
  "price (resolve_server_info item p) = price p"
  "stock (resolve_server_info item p) = stock p"
  "credit_rating (resolve_server_info item p) = credit_rating p"
  "purchase_url (resolve_server_info item p) = purchase_url p"
  by (simp_all add: resolve_server_info_def split: option.splits)

lemma resolve_price_fields [simp]:
  "title (resolve_price E item p) = title p"
  "stock (resolve_price E item p) = stock p"
  "credit_rating (resolve_price E item p) = credit_rating p"
  "purchase_url (resolve_price E item p) = purchase_url p"
  by (simp_all add: resolve_price_def split: option.splits sum.splits)

lemma first_two_p_fields [simp]:
  "title (first_two_p b p) = title p"
  "price (first_two_p b p) = price p"
  "stock (first_two_p b p) = stock p"
  "credit_rating (first_two_p b p) = credit_rating p"
  "purchase_url (first_two_p b p) = purchase_url p"
  by (simp_all add: first_two_p_def split: list.splits)

lemma resolve_rates_fields [simp]:
  "title (resolve_rates item p) = title p"
  "price (resolve_rates item p) = price p"
  "stock (resolve_rates item p) = stock p"
  "credit_rating (resolve_rates item p) = credit_rating p"
  "purchase_url (resolve_rates item p) = purchase_url p"
  by (simp_all add: resolve_rates_def split: option.splits list.splits)

lemma resolve_credit_rating_fields [simp]:
  "title (resolve_credit_rating item p) = title p"
  "price (resolve_credit_rating item p) = price p"
  "stock (resolve_credit_rating item p) = stock p"
  "purchase_url (resolve_credit_rating item p) = purchase_url p"
  by (simp_all add: resolve_credit_rating_def split: option.splits)

lemma resolve_purchase_url_fields [simp]:
  "title (resolve_purchase_url item p) = title p"
  "price (resolve_purchase_url item p) = price p"
  "stock (resolve_purchase_url item p) = stock p"
  "credit_rating (resolve_purchase_url item p) = credit_rating p"
  by (simp_all add: resolve_purchase_url_def split: option.splits)

lemma normalize_quantity_fields:
  assumes "normalize_quantity E p = Inr p'"
  shows "credit_rating p' = credit_rating p" and "purchase_url p' = purchase_url p"
    and "title p' = title p"
  using assms by (auto simp: normalize_quantity_def split: prod.splits sum.splits)

lemma from_html_elementE:
  assumes "from_html_element E item d = Inr p"
  obtains raw where "scrape E item d = Inr raw" and "normalize_quantity E raw = Inr p"
  using assms by (auto simp: from_html_element_def split: sum.splits)

lemma scrape_credit_rating:
  assumes "scrape E item d = Inr p"
  shows "credit_rating p =
           (case by_class ''game-reputation'' item of
              None \<Rightarrow> 0
            | Some rep \<Rightarrow>
                rating_of_counts (count_icons ''icon-heart'' rep)
                  (count_icons ''icon-bluediamond'' rep) (count_icons ''icon-crown'' rep) 0)"
  using assms
  by (auto simp: scrape_def Let_def resolve_credit_rating_def new_product_def
           split: sum.splits option.splits)

lemma from_html_credit_rating:
  assumes "from_html_element E item d = Inr p"
  shows "credit_rating p =
           (case by_class ''game-reputation'' item of
              None \<Rightarrow> 0
            | Some rep \<Rightarrow>
                rating_of_counts (count_icons ''icon-heart'' rep)
                  (count_icons ''icon-bluediamond'' rep) (count_icons ''icon-crown'' rep) 0)"
proof -
  from assms obtain raw where r: "scrape E item d = Inr raw"
    and n: "normalize_quantity E raw = Inr p"
    by (rule from_html_elementE)
  show ?thesis using scrape_credit_rating [OF r] normalize_quantity_fields(1) [OF n] by simp
qed

lemma from_html_purchase_url:
  assumes "from_html_element E item d = Inr p"
  shows "purchase_url p =
           (case buy_button item of None \<Rightarrow> [] | Some b \<Rightarrow> normalize_href (get_href b))"
proof -
  from assms obtain raw where r: "scrape E item d = Inr raw"
    and n: "normalize_quantity E raw = Inr p"
    by (rule from_html_elementE)
  from r have "purchase_url raw =
      (case buy_button item of None \<Rightarrow> [] | Some b \<Rightarrow> normalize_href (get_href b))"
    by (auto simp: scrape_def Let_def resolve_purchase_url_def new_product_def
             split: sum.splits option.splits)
  then show ?thesis using normalize_quantity_fields(2) [OF n] by simp
qed

text \<open>The example listings, extracted.\<close>

lemmas full_defs = item_full_def reputation_full_def button_full_def rep_full_def btn_full_def
  rec_full_def

lemma item_full_record: "from_html_element env0 item_full dd373 = Inr rec_full"
  by (simp add: full_defs model_defs)

lemma item_full_reputation: "by_class ''game-reputation'' item_full = Some rep_full"
  by (simp add: full_defs model_defs)

lemma item_full_button: "buy_button item_full = Some btn_full"
  by (simp add: full_defs model_defs)

lemma btn_full_href: "get_href btn_full = ascii ''/order''"
  by (simp add: full_defs model_defs)

lemma rep_full_icons:
  "count_icons ''icon-heart'' rep_full = 2"
  "count_icons ''icon-bluediamond'' rep_full = 1"
  "count_icons ''icon-crown'' rep_full = 0"
  by (simp_all add: full_defs model_defs)

section \<open>The eligibility filter\<close>

text \<open>
  C4. With both thresholds set, \<^verbatim>\<open>FilterParams.apply\<close> is true exactly when the credit rating
  is at least \<open>level_min\<close> and the stock at least \<open>stock_min\<close>, both bounds included. A
  threshold of zero switches its check off for a record whose field is not negative.
\<close>

theorem apply_filter_thresholds:
  "apply_filter \<lparr>stock_min = Some s, level_min = Some l\<rparr> p
     = (l \<le> credit_rating p \<and> s \<le> stock p)
   \<and> (0 \<le> credit_rating p \<longrightarrow>
        apply_filter \<lparr>stock_min = Some s, level_min = Some 0\<rparr> p = (s \<le> stock p))
   \<and> (0 \<le> stock p \<longrightarrow>
        apply_filter \<lparr>stock_min = Some 0, level_min = Some l\<rparr> p = (l \<le> credit_rating p))"
  by (auto simp: apply_filter_def below_def)

theorem apply_filter_thresholds_witness:
  "apply_filter \<lparr>stock_min = Some 1, level_min = Some 3\<rparr> (new_product\<lparr>stock := 1, credit_rating := 3\<rparr>)
   \<and> \<not> apply_filter \<lparr>stock_min = Some 1, level_min = Some 3\<rparr> (new_product\<lparr>stock := 0, credit_rating := 3\<rparr>)
   \<and> \<not> apply_filter \<lparr>stock_min = Some 1, level_min = Some 3\<rparr> (new_product\<lparr>stock := 1, credit_rating := 2\<rparr>)
   \<and> apply_filter \<lparr>stock_min = Some 1, level_min = Some 0\<rparr> (new_product\<lparr>stock := 1, credit_rating := 0\<rparr>)
   \<and> apply_filter \<lparr>stock_min = Some 0, level_min = Some 3\<rparr> (new_product\<lparr>stock := 0, credit_rating := 3\<rparr>)"
  using apply_filter_thresholds [of 1 3 "new_product\<lparr>stock := 1, credit_rating := 3\<rparr>"]
    apply_filter_thresholds [of 1 3 "new_product\<lparr>stock := 0, credit_rating := 3\<rparr>"]
    apply_filter_thresholds [of 1 3 "new_product\<lparr>stock := 1, credit_rating := 2\<rparr>"]
    apply_filter_thresholds [of 1 0 "new_product\<lparr>stock := 1, credit_rating := 0\<rparr>"]
    apply_filter_thresholds [of 0 3 "new_product\<lparr>stock := 0, credit_rating := 3\<rparr>"]
  by (simp add: new_product_def)

section \<open>The purchase URL\<close>

text \<open>
  C10. When the buy button has a non-empty \<^verbatim>\<open>href\<close> that does not start with \<^verbatim>\<open>http\<close>, the
  purchase URL of the record is \<^verbatim>\<open>https:\<close> followed by that \<^verbatim>\<open>href\<close>, whatever it starts
  with: a site-relative path is prefixed like a protocol-relative one and is not resolved
  against the domain.
\<close>

theorem purchase_url_prefixed:
  assumes "from_html_element E item d = Inr p"
    and "buy_button item = Some b"
    and "get_href b \<noteq> []"
    and "\<not> py_startswith (get_href b) (ascii ''http'')"
  shows "purchase_url p = ascii ''https:'' @ get_href b"
  using from_html_purchase_url [OF assms(1)] assms(2-4) by (simp add: normalize_href_def)

theorem purchase_url_prefixed_witness:
  "from_html_element env0 item_full dd373 = Inr rec_full
   \<and> buy_button item_full = Some btn_full
   \<and> get_href btn_full = ascii ''/order''
   \<and> purchase_url rec_full = ascii ''https:/order''"
proof -
  have 1: "get_href btn_full \<noteq> []" by (simp add: btn_full_href ascii_def)
  have 2: "\<not> py_startswith (get_href btn_full) (ascii ''http'')"
    by (simp add: btn_full_href ascii_def py_startswith_def)
  from purchase_url_prefixed [OF item_full_record item_full_button 1 2]
  have "purchase_url rec_full = ascii ''https:/order''" by (simp add: btn_full_href ascii_def)
  with item_full_record item_full_button btn_full_href show ?thesis by blast
qed

section \<open>The credit rating\<close>

text \<open>
  The priority of the tiers. For a fragment with a reputation container holding \<open>h\<close> heart
  icons, \<open>dm\<close> diamond icons and \<open>c\<close> crown icons: the rating is \<open>h\<close> when \<open>h > 0\<close>, whatever
  \<open>dm\<close> and \<open>c\<close> are; it is \<open>5 + dm\<close> when \<open>h = 0 < dm\<close>; it is \<open>10 + c\<close> when
  \<open>h = dm = 0 < c\<close>. With at most five hearts the hearts rating lies in 1 to 5.
\<close>

theorem credit_rating_tiers:
  assumes "from_html_element E item d = Inr p"
    and "by_class ''game-reputation'' item = Some rep"
    and "h = count_icons ''icon-heart'' rep"
    and "dm = count_icons ''icon-bluediamond'' rep"
    and "c = count_icons ''icon-crown'' rep"
  shows "(0 < h \<longrightarrow> credit_rating p = h)
       \<and> (h = 0 \<and> 0 < dm \<longrightarrow> credit_rating p = 5 + dm)
       \<and> (h = 0 \<and> dm = 0 \<and> 0 < c \<longrightarrow> credit_rating p = 10 + c)
       \<and> (0 < h \<and> h \<le> 5 \<longrightarrow> 1 \<le> credit_rating p \<and> credit_rating p \<le> 5)"
  using from_html_credit_rating [OF assms(1)] assms(2-5)
  by (auto simp: rating_of_counts_def)

lemma item_diamonds_record:
  "from_html_element env0 item_diamonds dd373 = Inr (new_product\<lparr>credit_rating := 8\<rparr>)"
  by (simp add: item_diamonds_def reputation_diamonds_def model_defs)

lemma item_diamonds_reputation: "by_class ''game-reputation'' item_diamonds = Some rep_diamonds"
  by (simp add: item_diamonds_def rep_diamonds_def reputation_diamonds_def model_defs)

lemma rep_diamonds_icons:
  "count_icons ''icon-heart'' rep_diamonds = 0"
  "count_icons ''icon-bluediamond'' rep_diamonds = 3"
  by (simp_all add: rep_diamonds_def reputation_diamonds_def model_defs)

lemma item_crowns_record:
  "from_html_element env0 item_crowns dd373 = Inr (new_product\<lparr>credit_rating := 12\<rparr>)"
  by (simp add: item_crowns_def reputation_crowns_def model_defs)

lemma item_crowns_reputation: "by_class ''game-reputation'' item_crowns = Some rep_crowns"
  by (simp add: item_crowns_def rep_crowns_def reputation_crowns_def model_defs)

lemma rep_crowns_icons:
  "count_icons ''icon-heart'' rep_crowns = 0"
  "count_icons ''icon-bluediamond'' rep_crowns = 0"
  "count_icons ''icon-crown'' rep_crowns = 2"
  by (simp_all add: rep_crowns_def reputation_crowns_def model_defs)

theorem credit_rating_tiers_witness:
  "count_icons ''icon-heart'' rep_full = 2 \<and> count_icons ''icon-bluediamond'' rep_full = 1
   \<and> credit_rating rec_full = 2
   \<and> count_icons ''icon-heart'' rep_diamonds = 0 \<and> count_icons ''icon-bluediamond'' rep_diamonds = 3
   \<and> credit_rating (new_product\<lparr>credit_rating := 8\<rparr>) = 5 + 3
   \<and> count_icons ''icon-heart'' rep_crowns = 0 \<and> count_icons ''icon-bluediamond'' rep_crowns = 0
   \<and> count_icons ''icon-crown'' rep_crowns = 2
   \<and> credit_rating (new_product\<lparr>credit_rating := 12\<rparr>) = 10 + 2"
  using credit_rating_tiers [OF item_full_record item_full_reputation refl refl refl]
    credit_rating_tiers [OF item_diamonds_record item_diamonds_reputation refl refl refl]
    credit_rating_tiers [OF item_crowns_record item_crowns_reputation refl refl refl]
  by (simp add: rep_full_icons rep_diamonds_icons rep_crowns_icons)

text \<open>
  C5. The claim puts the hearts rating in the range 1 to 5 and never at a diamonds value,
  as the comment on the field does (1-5 hearts, 6-10 diamonds). The count of hearts is
  taken as it is: six heart icons and one diamond icon give the rating 6, the value of
  one diamond.
\<close>

theorem credit_rating_six_hearts:
  "map_sum id credit_rating (from_html_element env0 item_six_hearts dd373) = Inr 6"
  by (simp add: item_six_hearts_def model_defs)

text \<open>
  C8, as amended. The rating of an extracted record is 0 when the fragment has no
  reputation container or the container holds none of the three icons; otherwise it is
  at least 1, and at most 15 when the container holds at most five icons of each kind.
\<close>

theorem credit_rating_range:
  assumes "from_html_element E item d = Inr p"
  shows "case by_class ''game-reputation'' item of
           None \<Rightarrow> credit_rating p = 0
         | Some rep \<Rightarrow>
             if count_icons ''icon-heart'' rep = 0 \<and> count_icons ''icon-bluediamond'' rep = 0
                \<and> count_icons ''icon-crown'' rep = 0
             then credit_rating p = 0
             else 1 \<le> credit_rating p \<and>
                  (count_icons ''icon-heart'' rep \<le> 5 \<and> count_icons ''icon-bluediamond'' rep \<le> 5
                   \<and> count_icons ''icon-crown'' rep \<le> 5 \<longrightarrow> credit_rating p \<le> 15)"
proof (cases "by_class ''game-reputation'' item")
  case None
  then show ?thesis using from_html_credit_rating [OF assms] by simp
next
  case (Some rep)
  obtain h dm c :: nat where "count_icons ''icon-heart'' rep = int h"
    and "count_icons ''icon-bluediamond'' rep = int dm"
    and "count_icons ''icon-crown'' rep = int c"
    by (simp add: count_icons_def)
  then show ?thesis using from_html_credit_rating [OF assms] Some
    by (auto simp: rating_of_counts_def)
qed

theorem credit_rating_range_witness:
  "from_html_element env0 item_full dd373 = Inr rec_full
   \<and> by_class ''game-reputation'' item_full = Some rep_full
   \<and> count_icons ''icon-heart'' rep_full = 2 \<and> count_icons ''icon-bluediamond'' rep_full = 1
   \<and> count_icons ''icon-crown'' rep_full = 0
   \<and> 1 \<le> credit_rating rec_full \<and> credit_rating rec_full \<le> 15"
  using credit_rating_range [OF item_full_record]
  by (simp add: item_full_record item_full_reputation rep_full_icons)

text \<open>The claim as stated fails on a fragment without a reputation container.\<close>

theorem credit_rating_zero:
  "map_sum id credit_rating (from_html_element env0 item_bare dd373) = Inr 0"
  by (simp add: item_bare_def model_defs)

section \<open>The sort key and the exceptions of the ranker\<close>

lemma py_float_abc: "py_float E (ascii ''abc'') = Inl ValueError"
  by (simp add: string_defs float_defs)

lemma key_offer_malformed: "exchange_rate_key E offer_malformed = Inl ValueError"
  by (simp add: offer_malformed_def model_defs)

lemma key_offer_sold_out: "exchange_rate_key E offer_sold_out = Inl ValueError"
  by (simp add: offer_sold_out_def model_defs)

lemma key_offer_good: "exchange_rate_key E offer_good = Inr (Finite (1 / 2))"
  by (simp add: offer_good_def model_defs)

text \<open>
  C2. The claim gives the key infinity for a malformed field and lets the ranker never
  raise. For the sell rate \<^verbatim>\<open>1=abc\<close> the key computation raises ValueError, and so does the
  ranker on a list that holds such a record.
\<close>

theorem exchange_rate_key_malformed_raises:
  "exchange_rate_2 offer_malformed = ascii ''1=abc''
   \<and> exchange_rate_key E offer_malformed = Inl ValueError
   \<and> filter_valid_offer_item E [offer_good, offer_malformed] \<lparr>stock_min = Some 0, level_min = Some 0\<rparr>
       = Inl ValueError"
proof -
  have "exchange_rate_2 offer_malformed = ascii ''1=abc''"
    by (simp add: offer_malformed_def)
  moreover have "filter_valid_offer_item E [offer_good, offer_malformed]
      \<lparr>stock_min = Some 0, level_min = Some 0\<rparr> = Inl ValueError"
    by (simp add: filter_valid_offer_item_def py_sorted_def key_offer_malformed key_offer_good)
  ultimately show ?thesis by (simp add: key_offer_malformed)
qed

text \<open>
  C3. Both records pass the filter, so the claim has \<^verbatim>\<open>get_dd_min_price\<close> return the cheaper
  one; the ValueError of the key computation ends the call instead.
\<close>

theorem get_dd_min_price_raises_with_eligible:
  "apply_filter \<lparr>stock_min = Some 0, level_min = Some 0\<rparr> offer_good
   \<and> apply_filter \<lparr>stock_min = Some 0, level_min = Some 0\<rparr> offer_malformed
   \<and> get_dd_min_price E (Some 0) (Some 0) [offer_good, offer_malformed] = Inl ValueError"
proof -
  have "apply_filter \<lparr>stock_min = Some 0, level_min = Some 0\<rparr> offer_good"
    "apply_filter \<lparr>stock_min = Some 0, level_min = Some 0\<rparr> offer_malformed"
    by (simp_all add: apply_filter_def below_def offer_good_def offer_malformed_def)
  moreover have "get_dd_min_price E (Some 0) (Some 0) [offer_good, offer_malformed] = Inl ValueError"
    by (simp add: get_dd_min_price_def filter_valid_offer_item_def py_sorted_def
          key_offer_malformed key_offer_good)
  ultimately show ?thesis by simp
qed

text \<open>
  C7. No record of the list passes the filter, so the claim has \<^verbatim>\<open>get_dd_min_price\<close> return
  \<^verbatim>\<open>None\<close>; the ValueError of the key computation ends the call instead.
\<close>

theorem get_dd_min_price_raises_without_eligible:
  "\<not> apply_filter \<lparr>stock_min = Some 1, level_min = Some 0\<rparr> offer_sold_out
   \<and> get_dd_min_price E (Some 1) (Some 0) [offer_sold_out] = Inl ValueError"
proof -
  have "\<not> apply_filter \<lparr>stock_min = Some 1, level_min = Some 0\<rparr> offer_sold_out"
    by (simp add: apply_filter_def below_def offer_sold_out_def)
  moreover have "get_dd_min_price E (Some 1) (Some 0) [offer_sold_out] = Inl ValueError"
    by (simp add: get_dd_min_price_def filter_valid_offer_item_def py_sorted_def
          key_offer_sold_out)
  ultimately show ?thesis by simp
qed

section \<open>The stock fallbacks\<close>

text \<open>
  C6. The labelled number in the reputation container is matched and is 0; the claim
  lets this first match win. The legacy element is consulted because the stock is 0 at
  that point, and its 5 becomes the stock of the record.
\<close>

theorem stock_legacy_overrides_labelled_zero:
  "by_class ''game-reputation'' item_stock_zero = Some rep_stock_zero
   \<and> re_search_stock E (text_of rep_stock_zero) = Some (ascii ''0'')
   \<and> stock_in_reputation E item_stock_zero = Inr 0
   \<and> resolve_stock E item_stock_zero = Inr 5
   \<and> map_sum id stock (from_html_element E item_stock_zero dd373) = Inr 5"
  by (simp add: item_stock_zero_def rep_stock_zero_def model_defs)

section \<open>The frame of the ranking step\<close>

lemma take_extended:
  assumes "take (length h1) h2 = h1" and "take n h1 = h0" and "n \<le> length h1"
  shows "take n h2 = h0"
proof -
  have "take n h2 = take n (take (length h1) h2)" using assms(3) by (simp add: min_def)
  then show ?thesis using assms(1,2) by simp
qed

lemma deepcopy_elems_frame:
  "deepcopy_elems h memo as = (h', bs) \<Longrightarrow> take (length h) h' = h"
proof (induction as arbitrary: h memo h' bs)
  case Nil
  then show ?case by simp
next
  case (Cons a as)
  show ?case
  proof (cases "map_of memo a")
    case (Some b)
    with Cons.prems obtain bs' where "deepcopy_elems h memo as = (h', bs')"
      by (auto split: prod.splits)
    then show ?thesis by (rule Cons.IH)
  next
    case None
    let ?h1 = "h @ [Product (get_product h a)]"
    from None Cons.prems obtain bs' where
      "deepcopy_elems ?h1 ((a, length h) # memo) as = (h', bs')"
      by (auto simp: alloc_def split: prod.splits)
    then have "take (length ?h1) h' = ?h1" by (rule Cons.IH)
    then show ?thesis by (rule take_extended) simp_all
  qed
qed

lemma deepcopy_list_frame: "take (length h) (fst (deepcopy_list h l)) = h"
proof -
  let ?h1 = "h @ [PyList []]"
  obtain h2 bs where d: "deepcopy_elems ?h1 [(l, length h)] (get_list h l) = (h2, bs)"
    by (cases "deepcopy_elems ?h1 [(l, length h)] (get_list h l)")
  have "take (length ?h1) h2 = ?h1" using d by (rule deepcopy_elems_frame)
  then have "take (length h) h2 = h" by (rule take_extended) simp_all
  then show ?thesis using d by (simp add: deepcopy_list_def alloc_def take_update_cancel)
qed

lemma append_valid_frame: "n \<le> v \<Longrightarrow> take n (append_valid fp h v xs) = take n h"
  by (induction xs arbitrary: h) (simp_all add: take_update_cancel)

text \<open>
  C9. Whatever the store, the list and the criteria, and whether the call returns or
  raises: the objects the store held before the call are the same after it. The
  caller's list and every record in it are among them.
\<close>

theorem filter_valid_offer_item_frame:
  "take (length h) (fst (filter_valid_offer_item_st E h listOffers filterParams)) = h"
proof -
  obtain h1 c where d: "deepcopy_list h listOffers = (h1, c)"
    by (cases "deepcopy_list h listOffers")
  have h1: "take (length h) h1 = h" using deepcopy_list_frame [of h listOffers] d by simp
  have "length (take (length h) h1) = length h" using h1 by simp
  then have len: "length h \<le> length h1" by simp
  show ?thesis
  proof (cases "py_sorted (\<lambda>a. exchange_rate_key E (get_product h1 a)) (get_list h1 c)")
    case (Inl e)
    then show ?thesis using d h1 by (simp add: filter_valid_offer_item_st_def)
  next
    case (Inr xs)
    let ?h3 = "h1 @ [PyList xs] @ [PyList []]"
    let ?v = "Suc (length h1)"
    have "take (length h) (append_valid filterParams ?h3 ?v (get_list ?h3 (length h1)))
            = take (length h) ?h3"
      using len by (intro append_valid_frame) simp
    also have "\<dots> = h" using h1 len by simp
    finally show ?thesis using d Inr by (simp add: filter_valid_offer_item_st_def alloc_def)
  qed
qed

section \<open>Rounding to binary64\<close>

lemma pow2_powi: "pow2 k = 2 powi k"
  by (simp add: pow2_def power_int_def power_one_over inverse_eq_divide)

lemma pow2_pos [simp]: "0 < pow2 k"
  by (simp add: pow2_def)

lemma pow2_nonzero [simp]: "pow2 k \<noteq> 0"
  by (simp add: pow2_def)

lemma pow2_add: "pow2 (j + k) = pow2 j * pow2 k"
  by (simp add: pow2_powi power_int_add)

lemma pow2_numeral [simp]: "pow2 0 = 1" "pow2 1 = 2" "pow2 53 = 2 ^ 53"
  by (simp_all add: pow2_def)

lemma pow2_Suc: "pow2 (k + 1) = 2 * pow2 k"
  by (simp add: pow2_add)

lemma pow2_less: "j < k \<Longrightarrow> pow2 j < pow2 k"
  by (simp add: pow2_powi power_int_strict_increasing)

lemma pow2_le: "j \<le> k \<Longrightarrow> pow2 j \<le> pow2 k"
  by (simp add: pow2_powi power_int_increasing)

lemma pow2_nat: "pow2 (int n) = 2 ^ n"
  by (simp add: pow2_def)

lemma ilog2_up_bounds:
  "1 \<le> a \<Longrightarrow> pow2 (ilog2_up a) \<le> a \<and> a < pow2 (ilog2_up a + 1)"
proof (induction a rule: ilog2_up.induct)
  case (1 a)
  show ?case
  proof (cases "a < 2")
    case True
    then have "ilog2_up a = 0" by (simp add: ilog2_up.simps [of a])
    then show ?thesis using True 1(2) by simp
  next
    case False
    define k where "k = ilog2_up (a / 2)"
    have e: "ilog2_up a = k + 1" using False by (simp add: ilog2_up.simps [of a] k_def)
    from False have "1 \<le> a / 2" by simp
    with 1(1) False have ih: "pow2 k \<le> a / 2 \<and> a / 2 < pow2 (k + 1)"
      by (simp add: k_def)
    have p1: "pow2 (k + 1) = 2 * pow2 k" by (rule pow2_Suc)
    have p2: "pow2 (k + 1 + 1) = 2 * pow2 (k + 1)" by (rule pow2_Suc)
    have "pow2 (k + 1) \<le> a" using ih p1 by linarith
    moreover have "a < pow2 (k + 1 + 1)" using ih p2 by linarith
    ultimately show ?thesis unfolding e by blast
  qed
qed

lemma ilog2_down_bounds:
  "0 < a \<Longrightarrow> a < 1 \<Longrightarrow> pow2 (ilog2_down a) \<le> a \<and> a < pow2 (ilog2_down a + 1)"
proof (induction a rule: ilog2_down.induct)
  case (1 a)
  define k where "k = ilog2_down (2 * a)"
  have e: "ilog2_down a = k - 1"
    using 1(2,3) by (simp add: ilog2_down.simps [of a] k_def)
  have p: "pow2 (k - 1 + 1) = 2 * pow2 (k - 1)" by (rule pow2_Suc)
  have k: "k - 1 + 1 = k" by simp
  show ?case
  proof (cases "2 * a < 1")
    case True
    with 1 have ih: "pow2 k \<le> 2 * a \<and> 2 * a < pow2 (k + 1)"
      by (simp add: k_def)
    have p1: "pow2 (k + 1) = 2 * pow2 k" by (rule pow2_Suc)
    have "pow2 (k - 1) \<le> a" using ih p k by simp
    moreover have "a < pow2 (k - 1 + 1)" using ih p1 unfolding k by linarith
    ultimately show ?thesis unfolding e by blast
  next
    case False
    then have "k = 0" using 1(2) by (simp add: ilog2_down.simps [of "2 * a"] k_def)
    then show ?thesis unfolding e using False 1(3) by (simp add: pow2_def)
  qed
qed

lemma ilog2_bounds: "0 < a \<Longrightarrow> pow2 (ilog2 a) \<le> a \<and> a < pow2 (ilog2 a + 1)"
  using ilog2_up_bounds [of a] ilog2_down_bounds [of a] by (simp add: ilog2_def)

lemma ilog2_unique:
  assumes "pow2 e \<le> a" and "a < pow2 (e + 1)"
  shows "ilog2 a = e"
proof -
  have a: "0 < a" using assms(1) pow2_pos [of e] by linarith
  note b = ilog2_bounds [OF a]
  have "\<not> ilog2 a < e"
  proof
    assume "ilog2 a < e"
    then have "pow2 (ilog2 a + 1) \<le> pow2 e" by (intro pow2_le) simp
    with b assms(1) show False by linarith
  qed
  moreover have "\<not> e < ilog2 a"
  proof
    assume "e < ilog2 a"
    then have "pow2 (e + 1) \<le> pow2 (ilog2 a)" by (intro pow2_le) simp
    with b assms(2) show False by linarith
  qed
  ultimately show ?thesis by simp
qed

lemma round_half_even_of_int [simp]: "round_half_even (of_int m) = m"
  by (simp add: round_half_even_def)

lemma round_half_even_le: "x \<le> of_int n \<Longrightarrow> round_half_even x \<le> n"
proof -
  assume a: "x \<le> of_int n"
  have f: "\<lfloor>x\<rfloor> \<le> n" using a by (simp add: floor_le_iff)
  show ?thesis
  proof (cases "x = of_int \<lfloor>x\<rfloor>")
    case True
    then show ?thesis using f by (simp add: round_half_even_def Let_def)
  next
    case False
    then have "of_int \<lfloor>x\<rfloor> < x" using of_int_floor_le [of x] by linarith
    with a have "\<lfloor>x\<rfloor> < n" by linarith
    then show ?thesis by (simp add: round_half_even_def Let_def)
  qed
qed

lemma round_half_even_nonneg: "0 \<le> x \<Longrightarrow> 0 \<le> round_half_even x"
  by (simp add: round_half_even_def Let_def)

text \<open>A multiple \<open>m * 2^k\<close> with at most 53 bits and \<open>k\<close> in range is a binary64 number.\<close>

lemma round_mag_fixed:
  assumes "0 < m" and "m \<le> 2 ^ 53" and "- 1074 \<le> k"
  shows "round_mag (of_int m * pow2 k) = of_int m * pow2 k"
proof -
  let ?r = "of_int m * pow2 k :: rat"
  let ?k' = "max (ilog2 ?r) (- 1022) - 52"
  have r: "0 < ?r" using assms(1) by simp
  have "\<exists>n. ?r = of_int n * pow2 ?k'"
  proof (cases "?k' \<le> k")
    case True
    define d where "d = nat (k - ?k')"
    have d: "k = ?k' + int d" using True by (simp add: d_def)
    have "?r = of_int m * (pow2 ?k' * 2 ^ d)"
      by (subst d) (simp add: pow2_add pow2_nat)
    also have "\<dots> = of_int (m * 2 ^ d) * pow2 ?k'" by simp
    finally show ?thesis by blast
  next
    case False
    then have big: "k + 53 \<le> ilog2 ?r" using assms(3) by simp
    have "pow2 (k + 53) \<le> pow2 (ilog2 ?r)" using big by (rule pow2_le)
    also have "\<dots> \<le> ?r" using ilog2_bounds [OF r] by simp
    finally have "pow2 k * 2 ^ 53 \<le> of_int m * pow2 k"
      by (simp add: pow2_add)
    then have "(of_int (2 ^ 53) :: rat) \<le> of_int m" by simp
    then have "(2::int) ^ 53 \<le> m" by (simp only: of_int_le_iff)
    with assms(2) have m: "m = 2 ^ 53" by simp
    have req: "?r = pow2 (k + 53)" by (simp add: m pow2_add)
    have "ilog2 ?r = k + 53"
    proof (rule ilog2_unique)
      show "pow2 (k + 53) \<le> ?r" using req by simp
      show "?r < pow2 (k + 53 + 1)" using req pow2_less [of "k + 53" "k + 53 + 1"] by simp
    qed
    then have k': "?k' = k + 1" using assms(3) by simp
    have "?r = of_int (2 ^ 52) * pow2 (k + 1)"
      by (simp add: m pow2_Suc)
    then show ?thesis unfolding k' by blast
  qed
  then obtain n where n: "?r = of_int n * pow2 ?k'" by blast
  have "round_mag ?r = round_to (pow2 ?k') ?r" by (simp add: round_mag_def quantum_def)
  also have "\<dots> = of_int (round_half_even (of_int n * pow2 ?k' / pow2 ?k')) * pow2 ?k'"
    by (subst n) (simp add: round_to_def)
  also have "\<dots> = of_int n * pow2 ?k'" 
  proof -
    have "(of_int n * pow2 ?k' / pow2 ?k' :: rat) = of_int n"
      using pow2_pos [of ?k'] by simp
    then show ?thesis by simp
  qed
  finally show ?thesis using n by simp
qed

text \<open>What \<open>round_mag\<close> returns is zero or such a multiple.\<close>

lemma round_mag_shape:
  assumes "0 < a"
  shows "\<exists>m k. 0 \<le> m \<and> m \<le> 2 ^ 53 \<and> - 1074 \<le> k \<and> round_mag a = of_int m * pow2 k"
proof -
  let ?e = "max (ilog2 a) (- 1022)"
  let ?u = "pow2 (?e - 52)"
  let ?m = "round_half_even (a / ?u)"
  have "a < pow2 (ilog2 a + 1)" using ilog2_bounds [OF assms] by simp
  also have "\<dots> \<le> pow2 (?e + 1)" by (rule pow2_le) simp
  also have "\<dots> = pow2 ((?e - 52) + 53)" by (simp add: algebra_simps)
  also have "\<dots> = ?u * pow2 53" by (rule pow2_add)
  also have "\<dots> = 2 ^ 53 * ?u" by simp
  finally have "a / ?u < 2 ^ 53" using pow2_pos [of "?e - 52"] by (simp add: pos_divide_less_eq)
  then have "a / ?u \<le> of_int (2 ^ 53)" by simp
  then have "?m \<le> 2 ^ 53" by (rule round_half_even_le)
  moreover have "0 \<le> a / ?u" by (intro divide_nonneg_pos) (simp_all add: assms less_imp_le)
  then have "0 \<le> ?m" by (rule round_half_even_nonneg)
  moreover have "- 1074 \<le> ?e - 52" by simp
  moreover have "round_mag a = of_int ?m * ?u" by (simp add: round_mag_def quantum_def round_to_def)
  ultimately show ?thesis by blast
qed

lemma round_mag_idem: "0 < a \<Longrightarrow> round_mag a \<noteq> 0 \<Longrightarrow> round_mag (round_mag a) = round_mag a"
proof -
  assume a: "0 < a" and nz: "round_mag a \<noteq> 0"
  from round_mag_shape [OF a] obtain m k where
    m: "0 \<le> m" "m \<le> 2 ^ 53" "- 1074 \<le> k" and r: "round_mag a = of_int m * pow2 k" by blast
  from nz r have "m \<noteq> 0" by auto
  with m(1) have "0 < m" by simp
  then show ?thesis unfolding r using m(2,3) by (rule round_mag_fixed)
qed

lemma round_mag_nonneg: "0 < a \<Longrightarrow> 0 \<le> round_mag a"
proof -
  assume "0 < a"
  from round_mag_shape [OF this] obtain m k where
    "0 \<le> m" and r: "round_mag a = of_int m * pow2 k" by blast
  then have "0 \<le> (of_int m :: rat) * pow2 k" by (simp add: less_imp_le)
  then show ?thesis using r by simp
qed

lemma to_binary64_idem: "to_binary64 x = Finite r \<Longrightarrow> to_binary64 r = Finite r"
proof -
  assume h: "to_binary64 x = Finite r"
  consider "x = 0" | "0 < x" | "x < 0" by linarith
  then show ?thesis
  proof cases
    case 1
    then show ?thesis using h by (simp add: to_binary64_def)
  next
    case 2
    with h have r: "r = round_mag x" and s: "\<not> float_limit \<le> round_mag x"
      by (auto simp: to_binary64_def split: if_splits)
    show ?thesis
    proof (cases "r = 0")
      case True
      then show ?thesis by (simp add: to_binary64_def)
    next
      case False
      then have "0 < r" using round_mag_nonneg [OF 2] r by simp
      moreover have "round_mag r = r" using round_mag_idem [OF 2] False r by simp
      ultimately show ?thesis using s r by (simp add: to_binary64_def)
    qed
  next
    case 3
    then have p: "0 < - x" by simp
    from 3 h have r: "r = - round_mag (- x)" and s: "\<not> float_limit \<le> round_mag (- x)"
      by (auto simp: to_binary64_def split: if_splits)
    show ?thesis
    proof (cases "r = 0")
      case True
      then show ?thesis by (simp add: to_binary64_def)
    next
      case False
      then have "r < 0" using round_mag_nonneg [OF p] r by simp
      moreover have "round_mag (- r) = - r" using round_mag_idem [OF p] False r by simp
      ultimately show ?thesis using s r by (simp add: to_binary64_def)
    qed
  qed
qed

lemma to_binary64_is_binary64 [simp]: "is_binary64 (to_binary64 x)"
proof (cases "to_binary64 x")
  case (Finite r)
  then show ?thesis using to_binary64_idem [of x r] by (simp add: is_binary64_def)
qed (simp_all add: is_binary64_def)

lemma to_binary64_zero [simp]: "to_binary64 0 = Finite 0"
  by (simp add: to_binary64_def)


lemma is_binary64_simps [simp]:
  "is_binary64 PInf" "is_binary64 NInf" "is_binary64 NaN" "is_binary64 (Finite 0)"
  by (simp_all add: is_binary64_def)




section \<open>Quantity normalization\<close>















end
